theory Spec2Isabelle
  imports Complex_Main "HOL-Library.Sublist"
begin

section \<open>Python values used by the JSON history backend\<close>

text \<open>
  The exceptions that the modelled code of \<^verbatim>\<open>xonsh/history/json.py\<close> can raise.
  \<open>IndexError\<close> carries its message, since \<^verbatim>\<open>JsonCommandField.__getitem__\<close>
  distinguishes its failures by message only. \<open>JSONDecodeError\<close> is a subclass of
  \<open>ValueError\<close> in Python and is modelled by \<open>ValueError\<close>.
\<close>

datatype py_error =
    IndexError string
  | KeyError string
  | TypeError
  | ValueError
  | OSError
  | AttributeError

text \<open>
  Python's slice \<^verbatim>\<open>xs[:k]\<close> for an integer \<open>k\<close>: a negative bound counts from
  the end and is clamped at the start of the list; a bound of zero (also when written
  \<^verbatim>\<open>-0\<close>) gives the empty list.
\<close>

definition slice_upto :: "'a list \<Rightarrow> int \<Rightarrow> 'a list" where
  "slice_upto xs k =
     (if k < 0 then take (nat (int (length xs) + k)) xs else take (nat k) xs)"

section \<open>Retention policies of the garbage collector\<close>

text \<open>
  A history file as the collector sees it: the tuple
  \<^verbatim>\<open>(mod_ts, num_commands, path, fsize)\<close>. The timestamp type is left open: the
  age policy only subtracts and compares timestamps, so its slicing does not depend on
  how the arithmetic of Python floats rounds.
\<close>

type_synonym 't hfile = "'t \<times> int \<times> string \<times> int"

definition hf_ts :: "'t hfile \<Rightarrow> 't" where
  "hf_ts f = fst f"

definition hf_cmds :: "'t hfile \<Rightarrow> int" where
  "hf_cmds f = fst (snd f)"

definition hf_path :: "'t hfile \<Rightarrow> string" where
  "hf_path f = fst (snd (snd f))"

definition hf_size :: "'t hfile \<Rightarrow> int" where
  "hf_size f = snd (snd (snd f))"

text \<open>
  The first loop of \<^verbatim>\<open>_xhj_gc_commands_to_rmfiles\<close> and of
  \<^verbatim>\<open>_xhj_gc_bytes_to_rmfiles\<close>, over \<^verbatim>\<open>reversed(files)\<close>: \<open>acc\<close> is the
  running total, \<open>n\<close> the number of files counted so far, \<open>metric\<close> selects the
  command count or the byte size. The loop breaks at the first file that would push the
  total over \<open>hsize\<close>.
\<close>

fun gc_keep_loop :: "('t hfile \<Rightarrow> int) \<Rightarrow> int \<Rightarrow> int \<Rightarrow> int \<Rightarrow> 't hfile list \<Rightarrow> int" where
  "gc_keep_loop metric hsize acc n [] = n"
| "gc_keep_loop metric hsize acc n (f # fs) =
     (if acc + metric f > hsize then n
      else gc_keep_loop metric hsize (acc + metric f) (n + 1) fs)"

text \<open>The second loop: the metric summed over the files to remove.\<close>

fun gc_sum_loop :: "('t hfile \<Rightarrow> int) \<Rightarrow> int \<Rightarrow> 't hfile list \<Rightarrow> int" where
  "gc_sum_loop metric acc [] = acc"
| "gc_sum_loop metric acc (f # fs) = gc_sum_loop metric (acc + metric f) fs"

definition xhj_gc_commands_to_rmfiles :: "int \<Rightarrow> 't hfile list \<Rightarrow> int \<times> 't hfile list" where
  "xhj_gc_commands_to_rmfiles hsize files =
     (let n = gc_keep_loop hf_cmds hsize 0 0 (rev files);
          files_removed = slice_upto files (- n);
          cmds_removed = gc_sum_loop hf_cmds 0 files_removed
      in (cmds_removed, files_removed))"

definition xhj_gc_files_to_rmfiles :: "int \<Rightarrow> 't hfile list \<Rightarrow> int \<times> 't hfile list" where
  "xhj_gc_files_to_rmfiles hsize files =
     (let rmfiles = (if int (length files) > hsize then slice_upto files (- hsize) else [])
      in (int (length rmfiles), rmfiles))"

text \<open>
  The loop of \<^verbatim>\<open>_xhj_gc_seconds_to_rmfiles\<close>, oldest file first: it breaks at the
  first file younger than the limit. \<open>now\<close> is the value of \<^verbatim>\<open>time.time()\<close>.
\<close>

fun gc_age_loop :: "'t::{minus,ord} \<Rightarrow> 't \<Rightarrow> int \<Rightarrow> 't hfile list \<Rightarrow> int" where
  "gc_age_loop now hsize n [] = n"
| "gc_age_loop now hsize n (f # fs) =
     (if (now - hf_ts f) < hsize then n else gc_age_loop now hsize (n + 1) fs)"

definition xhj_gc_seconds_to_rmfiles ::
  "'t::{minus,ord,zero} \<Rightarrow> 't \<Rightarrow> 't hfile list \<Rightarrow> 't \<times> 't hfile list" where
  "xhj_gc_seconds_to_rmfiles now hsize files =
     (let n = gc_age_loop now hsize 0 files;
          rmfiles = slice_upto files n;
          size_over = (if n > 0 then now - hsize - hf_ts (rmfiles ! 0) else 0)
      in (size_over, rmfiles))"

definition xhj_gc_bytes_to_rmfiles :: "int \<Rightarrow> 't hfile list \<Rightarrow> int \<times> 't hfile list" where
  "xhj_gc_bytes_to_rmfiles hsize files =
     (let n = gc_keep_loop hf_size hsize 0 0 (rev files);
          files_removed = slice_upto files (- n);
          bytes_removed = gc_sum_loop hf_size 0 files_removed
      in (bytes_removed, files_removed))"

section \<open>Commands, session files and the file system\<close>

text \<open>
  The outcome of an operation: it returns a value, raises an exception, or is suspended
  in \<^verbatim>\<open>cond.wait_for(i_am_at_the_front)\<close>. The model runs one operation at a time,
  so an operation that finds another ticket at the head of the queue stays suspended
  until some other operation removes that ticket.
\<close>

datatype 'a outcome = Returns 'a | Raises py_error | Waits

text \<open>
  JSON values as they occur in a command: \<^verbatim>\<open>None\<close>, booleans, integers, floats
  (idealised as reals), strings and lists. Values are compared structurally.
\<close>

datatype jval = JNull | JBool bool | JInt int | JReal real | JStr string | JList "jval list"

text \<open>A command is a Python dict from field names to values, in insertion order.\<close>

type_synonym cmd = "(string \<times> jval) list"

definition dict_get :: "cmd \<Rightarrow> string \<Rightarrow> jval \<Rightarrow> jval" where
  \<comment> \<open>\<^verbatim>\<open>d.get(key, default)\<close>\<close>
  "dict_get d k dflt = (case map_of d k of None \<Rightarrow> dflt | Some v \<Rightarrow> v)"

definition dict_item :: "cmd \<Rightarrow> string \<Rightarrow> py_error + jval" where
  \<comment> \<open>\<^verbatim>\<open>d[key]\<close>, which raises \<^verbatim>\<open>KeyError\<close> for a missing key\<close>
  "dict_item d k = (case map_of d k of None \<Rightarrow> Inl (KeyError k) | Some v \<Rightarrow> Inr v)"

definition dict_pop :: "cmd \<Rightarrow> string \<Rightarrow> cmd" where
  \<comment> \<open>\<^verbatim>\<open>d.pop(key)\<close> or \<^verbatim>\<open>del d[key]\<close> for a key that may be present\<close>
  "dict_pop d k = filter (\<lambda>kv. fst kv \<noteq> k) d"

definition list_item :: "'a list \<Rightarrow> int \<Rightarrow> py_error + 'a" where
  \<comment> \<open>\<^verbatim>\<open>xs[i]\<close> on a Python list; the indices \<open>-1\<close> down to \<open>-len(xs)\<close> read from the end\<close>
  "list_item xs i =
     (if 0 \<le> i \<and> i < int (length xs) then Inr (xs ! nat i)
      else if i < 0 \<and> - int (length xs) \<le> i then Inr (xs ! nat (int (length xs) + i))
      else Inl (IndexError ''list index out of range''))"

text \<open>
  A session file, the JSON document \<^verbatim>\<open>{"cmds": [...], "ts": [start, end],
  "locked": ..., "sessionid": ..., ...}\<close>. The keys \<^verbatim>\<open>ts\<close> and \<^verbatim>\<open>locked\<close> may be
  absent; \<open>sf_meta\<close> holds every other top-level key, the session id among them.
\<close>

record session_file =
  sf_cmds :: "cmd list"
  sf_ts :: "(real \<times> real option) option"
  sf_locked :: "bool option"
  sf_meta :: "(string \<times> jval) list"

text \<open>
  What a path holds: a document, or bytes that are not valid JSON. A path that the
  file system does not map does not exist, and opening it raises \<^verbatim>\<open>OSError\<close>.
\<close>

datatype fcontent = Corrupt | Doc session_file

type_synonym fsys = "string \<rightharpoonup> fcontent"

definition lj_cmds_item :: "session_file \<Rightarrow> int \<Rightarrow> py_error + cmd" where
  \<comment> \<open>Modelled from the spec: the lazy JSON reader \<^verbatim>\<open>xonsh.lib.lazyjson\<close> is not part
      of the sources at hand. \<^verbatim>\<open>lj["cmds"][key]\<close> is its indexed access into the
      \<^verbatim>\<open>cmds\<close> array, materialising one element; it indexes a Python list of
      offsets, so it follows Python's list indexing.\<close>
  "lj_cmds_item d key = list_item (sf_cmds d) key"

section \<open>The history object and its field accessors\<close>

text \<open>
  A \<^verbatim>\<open>JsonCommandField\<close>. \<open>cf_id\<close> is the identity of the Python object, which
  \<^verbatim>\<open>i_am_at_the_front\<close> compares with \<^verbatim>\<open>is\<close>.
\<close>

record command_field =
  cf_id :: nat
  cf_field :: string
  cf_default :: jval

text \<open>
  The attributes of a \<^verbatim>\<open>JsonHistory\<close>. \<open>u_queue\<close>, \<open>u_len\<close> and \<open>u_skipped\<close> are
  the attributes \<^verbatim>\<open>_queue\<close>, \<^verbatim>\<open>_len\<close> and \<^verbatim>\<open>_skipped\<close>; the queue holds the
  identities of the waiting accessors and flushers. \<open>next_id\<close> is the identity that the
  next object created gets. The key \<open>None\<close> of \<open>last_pull_times\<close> is Python's
  \<^verbatim>\<open>None\<close>, the cursor of full pulls.
\<close>

record json_history =
  remember_history :: bool
  filename :: string
  buffer :: "cmd list"
  buffersize :: int
  u_queue :: "nat list"
  u_len :: int
  u_skipped :: int
  last_pull_times :: "string option \<rightharpoonup> real"
  tss :: command_field
  inps :: command_field
  outs :: command_field
  rtns :: command_field
  cwds :: command_field
  save_cwd :: bool
  next_id :: nat

definition history_len :: "json_history \<Rightarrow> py_error + int" where
  \<comment> \<open>\<^verbatim>\<open>len(hist)\<close>: the builtin raises \<^verbatim>\<open>ValueError\<close> when \<^verbatim>\<open>__len__\<close> returns
      a negative number\<close>
  "history_len h =
     (if u_len h - u_skipped h < 0 then Inl ValueError else Inr (u_len h - u_skipped h))"

definition i_am_at_the_front :: "nat \<Rightarrow> json_history \<Rightarrow> py_error + bool" where
  \<comment> \<open>\<^verbatim>\<open>self is self.hist._queue[0]\<close>; indexing an empty deque raises\<close>
  "i_am_at_the_front i h =
     (case u_queue h of [] \<Rightarrow> Inl (IndexError ''deque index out of range'') | x # _ \<Rightarrow> Inr (x = i))"

definition queue_append :: "nat \<Rightarrow> json_history \<Rightarrow> json_history" where
  "queue_append i h = h\<lparr>u_queue := u_queue h @ [i]\<rparr>"

definition queue_popleft :: "json_history \<Rightarrow> json_history" where
  \<comment> \<open>\<^verbatim>\<open>queue.popleft()\<close>, only called on a queue that holds the caller\<close>
  "queue_popleft h = h\<lparr>u_queue := tl (u_queue h)\<rparr>"

text \<open>Index keys: an integer, a slice with optional integer bounds, or anything else.\<close>

datatype key = KInt int | KSlice "int option" "int option" "int option" | KOther jval

text \<open>
  \<^verbatim>\<open>slice.indices(length)\<close> and \<^verbatim>\<open>range(start, stop, step)\<close> of Python, for a
  non-negative length.
\<close>

definition slice_bound :: "int option \<Rightarrow> int \<Rightarrow> int \<Rightarrow> int \<Rightarrow> int \<Rightarrow> int" where
  "slice_bound b dflt lower upper len =
     (case b of None \<Rightarrow> dflt
      | Some v \<Rightarrow> if v < 0 then max (v + len) lower else min v upper)"

definition slice_indices ::
  "int option \<Rightarrow> int option \<Rightarrow> int option \<Rightarrow> int \<Rightarrow> py_error + (int \<times> int \<times> int)" where
  "slice_indices start stop step len =
     (let st = (case step of None \<Rightarrow> 1 | Some v \<Rightarrow> v) in
      if st = 0 then Inl ValueError
      else
        let lower = (if st < 0 then - 1 else 0);
            upper = (if st < 0 then len - 1 else len)
        in Inr (slice_bound start (if st < 0 then upper else lower) lower upper len,
                slice_bound stop (if st < 0 then lower else upper) lower upper len,
                st))"

definition py_range :: "int \<Rightarrow> int \<Rightarrow> int \<Rightarrow> int list" where
  "py_range start stop step =
     (let n = (if 0 < step \<and> start < stop then (stop - start - 1) div step + 1
               else if step < 0 \<and> stop < start then (start - stop - 1) div (- step) + 1
               else 0)
      in map (\<lambda>k. start + int k * step) [0..<nat n])"

text \<open>
  \<^verbatim>\<open>JsonCommandField.__getitem__\<close> from the line \<^verbatim>\<open>elif size == 0\<close> on, for an
  integer key and the size already computed. A read of the buffer touches neither the
  queue nor the file. A read of the file appends the accessor to the queue, waits to be
  at its front, opens the file and reads one command, and only then removes the head of
  the queue: an exception raised in between leaves the queue as it is.
\<close>

definition getitem_at ::
  "command_field \<Rightarrow> fsys \<Rightarrow> int \<Rightarrow> int \<Rightarrow> json_history \<Rightarrow> json_history \<times> jval outcome" where
  "getitem_at self fs sz key0 h =
     (if sz = 0 then (h, Raises (IndexError ''JsonCommandField is empty.''))
      else
        let key = (if key0 < 0 then sz + key0 else key0);
            bufsize = int (length (buffer h))
        in if sz - bufsize \<le> key then
             (case list_item (buffer h) (key + bufsize - sz) of
                Inl e \<Rightarrow> (h, Raises e)
              | Inr c \<Rightarrow> (h, Returns (dict_get c (cf_field self) (cf_default self))))
           else
             let h1 = queue_append (cf_id self) h in
             (case i_am_at_the_front (cf_id self) h1 of
                Inl e \<Rightarrow> (h1, Raises e)
              | Inr False \<Rightarrow> (h1, Waits)
              | Inr True \<Rightarrow>
                  (case fs (filename h1) of
                     None \<Rightarrow> (h1, Raises OSError)
                   | Some Corrupt \<Rightarrow> (h1, Raises ValueError)
                   | Some (Doc d) \<Rightarrow>
                       (case lj_cmds_item d key of
                          Inl e \<Rightarrow> (h1, Raises e)
                        | Inr c \<Rightarrow>
                            (queue_popleft h1,
                             Returns (dict_get c (cf_field self) (cf_default self)))))))"

text \<open>\<^verbatim>\<open>self[i]\<close> for an integer \<open>i\<close>: the whole of \<^verbatim>\<open>__getitem__\<close> on that path.\<close>

definition getitem_int ::
  "command_field \<Rightarrow> fsys \<Rightarrow> int \<Rightarrow> json_history \<Rightarrow> json_history \<times> jval outcome" where
  "getitem_int self fs key h =
     (if \<not> remember_history h then (h, Returns (JStr ''''))
      else
        (case history_len h of
           Inl e \<Rightarrow> (h, Raises e)
         | Inr sz \<Rightarrow> getitem_at self fs sz key h))"

text \<open>The list comprehension \<^verbatim>\<open>[self[i] for i in range(...)]\<close>.\<close>

fun getitem_list ::
  "command_field \<Rightarrow> fsys \<Rightarrow> int list \<Rightarrow> json_history \<Rightarrow> json_history \<times> jval list outcome" where
  "getitem_list self fs [] h = (h, Returns [])"
| "getitem_list self fs (i # ks) h =
     (case getitem_int self fs i h of
        (h1, Returns v) \<Rightarrow>
          (case getitem_list self fs ks h1 of
             (h2, Returns vs) \<Rightarrow> (h2, Returns (v # vs))
           | (h2, Raises e) \<Rightarrow> (h2, Raises e)
           | (h2, Waits) \<Rightarrow> (h2, Waits))
      | (h1, Raises e) \<Rightarrow> (h1, Raises e)
      | (h1, Waits) \<Rightarrow> (h1, Waits))"

definition getitem ::
  "command_field \<Rightarrow> key \<Rightarrow> json_history \<Rightarrow> fsys \<Rightarrow> json_history \<times> jval outcome" where
  "getitem self k h fs =
     (if \<not> remember_history h then (h, Returns (JStr ''''))
      else
        (case history_len h of
           Inl e \<Rightarrow> (h, Raises e)
         | Inr sz \<Rightarrow>
             (case k of
                KSlice start stop step \<Rightarrow>
                  (case slice_indices start stop step sz of
                     Inl e \<Rightarrow> (h, Raises e)
                   | Inr (a, b, c) \<Rightarrow>
                       (case getitem_list self fs (py_range a b c) h of
                          (h1, Returns vs) \<Rightarrow> (h1, Returns (JList vs))
                        | (h1, Raises e) \<Rightarrow> (h1, Raises e)
                        | (h1, Waits) \<Rightarrow> (h1, Waits)))
              | KOther v \<Rightarrow>
                  (h, Raises (IndexError ''JsonCommandField may only be indexed by int or slice.''))
              | KInt i \<Rightarrow> getitem_at self fs sz i h)))"

section \<open>Creating a history\<close>

definition dict_set :: "cmd \<Rightarrow> string \<Rightarrow> jval \<Rightarrow> cmd" where
  \<comment> \<open>\<^verbatim>\<open>d[key] = value\<close>: an existing key keeps its place, a new key goes last\<close>
  "dict_set d k v =
     (if k \<in> fst ` set d then map (\<lambda>kv. if fst kv = k then (k, v) else kv) d else d @ [(k, v)])"

definition path_join :: "string \<Rightarrow> string \<Rightarrow> string" where
  \<comment> \<open>\<^verbatim>\<open>os.path.join(dir, name)\<close> for a relative \<open>name\<close>\<close>
  "path_join dir name =
     (if dir = [] \<or> last dir = CHR ''/'' then dir @ name else dir @ ''/'' @ name)"

definition session_filename :: "string \<Rightarrow> string \<Rightarrow> string" where
  \<comment> \<open>\<^verbatim>\<open>os.path.join(data_dir, f"xonsh-{sessionid}.json")\<close>\<close>
  "session_filename data_dir sessionid = path_join data_dir (''xonsh-'' @ sessionid @ ''.json'')"

definition new_field :: "nat \<Rightarrow> string \<Rightarrow> command_field" where
  \<comment> \<open>\<^verbatim>\<open>JsonCommandField(field, hist)\<close>, whose default is \<^verbatim>\<open>None\<close>\<close>
  "new_field i field = \<lparr>cf_id = i, cf_field = field, cf_default = JNull\<rparr>"

text \<open>
  \<^verbatim>\<open>JsonHistory.__init__\<close>. \<open>remember\<close> is the attribute \<^verbatim>\<open>remember_history\<close> that
  the base class sets; \<open>ts\<close> and \<open>locked\<close> are the entries of \<^verbatim>\<open>**meta\<close> with these
  names, \<open>meta\<close> the others; \<open>now\<close> is \<^verbatim>\<open>time.time()\<close>. The file is written only
  when the path does not exist yet. The collector thread and the change of owner and
  mode of the file are not modelled.
\<close>

definition json_history_init ::
  "string option \<Rightarrow> string \<Rightarrow> string \<Rightarrow> int \<Rightarrow> bool \<Rightarrow> bool \<Rightarrow>
   (real \<times> real option) option \<Rightarrow> bool option \<Rightarrow> (string \<times> jval) list \<Rightarrow> real \<Rightarrow> fsys \<Rightarrow>
   json_history \<times> fsys" where
  "json_history_init fname data_dir sessionid bufsize savecwd remember ts locked meta now fs =
     (let fn = (case fname of None \<Rightarrow> session_filename data_dir sessionid | Some f \<Rightarrow> f);
          fs1 = (if fn \<noteq> [] \<and> fs fn = None
                 then fs(fn \<mapsto> Doc \<lparr>sf_cmds = [], sf_ts = ts, sf_locked = locked,
                                     sf_meta = dict_set meta ''sessionid'' (JStr sessionid)\<rparr>)
                 else fs)
      in (\<lparr>remember_history = remember, filename = fn, buffer = [], buffersize = bufsize,
           u_queue = [], u_len = 0, u_skipped = 0, last_pull_times = [None \<mapsto> now],
           tss = new_field 0 ''ts'', inps = new_field 1 ''inp'', outs = new_field 2 ''out'',
           rtns = new_field 3 ''rtn'', cwds = new_field 4 ''cwd'',
           save_cwd = savecwd, next_id = 5\<rparr>, fs1))"

section \<open>The environment\<close>

text \<open>
  What the code reads from \<^verbatim>\<open>XSH.env\<close> and from the directories: the set
  \<^verbatim>\<open>$HISTCONTROL\<close>, \<^verbatim>\<open>$XONSH_STORE_STDOUT\<close>, the predicate
  \<^verbatim>\<open>History.is_ignored\<close> of the base class, the data directory, the history files
  that \<^verbatim>\<open>_xhj_get_data_dir_files\<close> yields for the two data directories with their
  modification times, the expanded \<^verbatim>\<open>$XONSH_HISTORY_FILE\<close>, and the working
  directory.
\<close>

record env =
  histcontrol :: "string list"
  store_stdout :: bool
  is_ignored :: "cmd \<Rightarrow> bool"
  data_dir :: string
  dir_listing :: "(string \<times> real) list"
  history_file :: "string option"
  cwd :: string

definition py_truthy :: "jval \<Rightarrow> bool" where
  "py_truthy v =
     (case v of JNull \<Rightarrow> False | JBool b \<Rightarrow> b | JInt i \<Rightarrow> i \<noteq> 0 | JReal r \<Rightarrow> r \<noteq> 0
      | JStr s \<Rightarrow> s \<noteq> [] | JList xs \<Rightarrow> xs \<noteq> [])"

definition py_ne_zero :: "jval \<Rightarrow> bool" where
  \<comment> \<open>\<^verbatim>\<open>v != 0\<close>\<close>
  "py_ne_zero v =
     (case v of JBool b \<Rightarrow> b | JInt i \<Rightarrow> i \<noteq> 0 | JReal r \<Rightarrow> r \<noteq> 0 | _ \<Rightarrow> True)"

text \<open>
  \<^verbatim>\<open>_xhj_get_history_files(sort, newest_first, modified_since)\<close>. Python's sort is
  stable: files of equal modification time keep their order, also with
  \<^verbatim>\<open>reverse=True\<close>.
\<close>

definition xhj_get_history_files :: "bool \<Rightarrow> bool \<Rightarrow> real option \<Rightarrow> env \<Rightarrow> string list" where
  "xhj_get_history_files sort_files newest_first modified_since e =
     (let files = filter (\<lambda>fm. case modified_since of None \<Rightarrow> True | Some t \<Rightarrow> snd fm > t)
                    (dir_listing e);
          sorted_files = (if sort_files
                          then (if newest_first then sort_key (\<lambda>fm. - snd fm) files
                                else sort_key snd files)
                          else files);
          paths = map fst sorted_files
      in case history_file e of
           None \<Rightarrow> paths
         | Some f \<Rightarrow> if f \<noteq> [] \<and> f \<notin> set paths then f # paths else paths)"

section \<open>The flusher\<close>

text \<open>
  A \<^verbatim>\<open>JsonHistoryFlusher\<close>: its identity, the file, the snapshot of the buffer (a
  tuple) and the flag \<^verbatim>\<open>at_exit\<close>. Its queue and its \<^verbatim>\<open>skip\<close> callback are those
  of the history.
\<close>

record flusher =
  fl_id :: nat
  fl_filename :: string
  fl_buffer :: "cmd list"
  fl_at_exit :: bool

definition dup_test :: "bool \<Rightarrow> cmd \<Rightarrow> jval \<Rightarrow> py_error + bool" where
  \<comment> \<open>\<^verbatim>\<open>"ignoredups" in opts and cmd["inp"] == last_inp\<close>\<close>
  "dup_test dups c last_inp =
     (if dups then (case dict_item c ''inp'' of Inl e \<Rightarrow> Inl e | Inr v \<Rightarrow> Inr (v = last_inp))
      else Inr False)"

definition err_test :: "bool \<Rightarrow> cmd \<Rightarrow> py_error + bool" where
  \<comment> \<open>\<^verbatim>\<open>"ignoreerr" in opts and cmd["rtn"] != 0\<close>\<close>
  "err_test errs c =
     (if errs then (case dict_item c ''rtn'' of Inl e \<Rightarrow> Inl e | Inr v \<Rightarrow> Inr (py_ne_zero v))
      else Inr False)"

text \<open>
  The first loop of \<^verbatim>\<open>dump\<close>: the number of calls of \<^verbatim>\<open>skip(1)\<close>, and the
  commands kept or the exception raised. \<open>last_inp\<close> starts as \<^verbatim>\<open>None\<close>.
\<close>

fun dump_filter :: "bool \<Rightarrow> bool \<Rightarrow> jval \<Rightarrow> cmd list \<Rightarrow> int \<times> (py_error + cmd list)" where
  "dump_filter dups errs last_inp [] = (0, Inr [])"
| "dump_filter dups errs last_inp (c # cs) =
     (case dup_test dups c last_inp of
        Inl e \<Rightarrow> (0, Inl e)
      | Inr True \<Rightarrow> (case dump_filter dups errs last_inp cs of (n, r) \<Rightarrow> (n + 1, r))
      | Inr False \<Rightarrow>
          (case err_test errs c of
             Inl e \<Rightarrow> (0, Inl e)
           | Inr True \<Rightarrow> (case dump_filter dups errs last_inp cs of (n, r) \<Rightarrow> (n + 1, r))
           | Inr False \<Rightarrow>
               (case dict_item c ''inp'' of
                  Inl e \<Rightarrow> (0, Inl e)
                | Inr v \<Rightarrow>
                    (case dump_filter dups errs v cs of
                       (n, Inl e) \<Rightarrow> (n, Inl e)
                     | (n, Inr kept) \<Rightarrow> (n, Inr (c # kept))))))"

text \<open>
  \<^verbatim>\<open>JsonHistoryFlusher.dump\<close>: filter the snapshot, read the whole file, extend its
  commands, stamp the end time and clear the lock at exit, strip \<^verbatim>\<open>out\<close> from the new
  commands unless output is stored, and write the whole file back. The skips counted
  before an exception stay counted.
\<close>

definition dump ::
  "flusher \<Rightarrow> env \<Rightarrow> real \<Rightarrow> json_history \<Rightarrow> fsys \<Rightarrow> (json_history \<times> fsys) \<times> unit outcome" where
  "dump self e now h fs =
     (case dump_filter (''ignoredups'' \<in> set (histcontrol e)) (''ignoreerr'' \<in> set (histcontrol e))
             JNull (fl_buffer self) of
        (n, r) \<Rightarrow>
          let h1 = h\<lparr>u_skipped := u_skipped h + n\<rparr> in
          (case r of
             Inl err \<Rightarrow> ((h1, fs), Raises err)
           | Inr cmds \<Rightarrow>
               (case fs (fl_filename self) of
                  None \<Rightarrow> ((h1, fs), Raises OSError)
                | Some Corrupt \<Rightarrow> ((h1, fs), Raises ValueError)
                | Some (Doc hist) \<Rightarrow>
                    let new = (if store_stdout e then cmds else map (\<lambda>c. dict_pop c ''out'') cmds);
                        hist1 = hist\<lparr>sf_cmds := sf_cmds hist @ new\<rparr>;
                        hist2 = (if fl_at_exit self
                                 then hist1\<lparr>sf_ts := (case sf_ts hist1 of None \<Rightarrow> None
                                                        | Some (start, _) \<Rightarrow> Some (start, Some now)),
                                             sf_locked := Some False\<rparr>
                                 else hist1)
                    in ((h1, fs(fl_filename self \<mapsto> Doc hist2)), Returns ()))))"

text \<open>
  \<^verbatim>\<open>JsonHistoryFlusher.run\<close>, the body of the thread: wait to be at the front, dump,
  and only then remove the head of the queue.
\<close>

definition flusher_run ::
  "flusher \<Rightarrow> env \<Rightarrow> real \<Rightarrow> json_history \<Rightarrow> fsys \<Rightarrow> (json_history \<times> fsys) \<times> unit outcome" where
  "flusher_run self e now h fs =
     (case i_am_at_the_front (fl_id self) h of
        Inl err \<Rightarrow> ((h, fs), Raises err)
      | Inr False \<Rightarrow> ((h, fs), Waits)
      | Inr True \<Rightarrow>
          (case dump self e now h fs of
             ((h1, fs1), Returns u) \<Rightarrow> ((queue_popleft h1, fs1), Returns ())
           | ((h1, fs1), Raises err) \<Rightarrow> ((h1, fs1), Raises err)
           | ((h1, fs1), Waits) \<Rightarrow> ((h1, fs1), Waits)))"

section \<open>Operations of the session store\<close>

text \<open>
  \<^verbatim>\<open>JsonHistory.flush\<close>. With an empty buffer it does nothing. Otherwise it creates a
  flusher, which appends itself to the queue; at exit the flusher dumps at once and
  removes the head of the queue, otherwise its thread is started and
  \<open>flusher_run\<close> is what the thread does. The buffer is emptied after the flusher is
  created.
\<close>

definition flush ::
  "bool \<Rightarrow> env \<Rightarrow> real \<Rightarrow> json_history \<Rightarrow> fsys \<Rightarrow> (json_history \<times> fsys) \<times> flusher option outcome" where
  "flush at_exit e now h fs =
     (if length (buffer h) = 0 then ((h, fs), Returns None)
      else
        let self = \<lparr>fl_id = next_id h, fl_filename = filename h, fl_buffer = buffer h,
                    fl_at_exit = at_exit\<rparr>;
            h1 = queue_append (fl_id self) (h\<lparr>next_id := next_id h + 1\<rparr>)
        in if at_exit then
             (case dump self e now h1 fs of
                ((h2, fs2), Returns u) \<Rightarrow> (((queue_popleft h2)\<lparr>buffer := []\<rparr>, fs2), Returns (Some self))
              | ((h2, fs2), Raises err) \<Rightarrow> ((h2, fs2), Raises err)
              | ((h2, fs2), Waits) \<Rightarrow> ((h2, fs2), Waits))
           else ((h1\<lparr>buffer := []\<rparr>, fs), Returns (Some self)))"

text \<open>
  A flush followed by the run of its thread to the end, with no other operation in
  between.
\<close>

definition flush_and_run ::
  "env \<Rightarrow> real \<Rightarrow> json_history \<Rightarrow> fsys \<Rightarrow> (json_history \<times> fsys) \<times> unit outcome" where
  "flush_and_run e now h fs =
     (case flush False e now h fs of
        ((h1, fs1), Returns None) \<Rightarrow> ((h1, fs1), Returns ())
      | ((h1, fs1), Returns (Some self)) \<Rightarrow> flusher_run self e now h1 fs1
      | ((h1, fs1), Raises err) \<Rightarrow> ((h1, fs1), Raises err)
      | ((h1, fs1), Waits) \<Rightarrow> ((h1, fs1), Waits))"

text \<open>
  \<^verbatim>\<open>JsonHistory.append\<close>. The command is stripped of \<^verbatim>\<open>cwd\<close> (unless the working
  directory is saved) and of \<^verbatim>\<open>spc\<close> after it was put into the buffer, as the same
  dict.
\<close>

definition append_cmd ::
  "cmd \<Rightarrow> env \<Rightarrow> real \<Rightarrow> json_history \<Rightarrow> fsys \<Rightarrow> (json_history \<times> fsys) \<times> flusher option outcome" where
  "append_cmd c e now h fs =
     (if \<not> remember_history h \<or> is_ignored e c then ((h, fs), Returns None)
      else if ''ignorespace'' \<in> set (histcontrol e) \<and> py_truthy (dict_get c ''spc'' JNull)
      then ((h, fs), Returns None)
      else
        let c1 = (if \<not> save_cwd h then dict_pop c ''cwd'' else c);
            c2 = dict_pop c1 ''spc'';
            h1 = h\<lparr>buffer := buffer h @ [c2], u_len := u_len h + 1\<rparr>
        in if int (length (buffer h1)) \<ge> buffersize h1 then flush False e now h1 fs
           else ((h1, fs), Returns None))"

text \<open>
  \<^verbatim>\<open>JsonHistory.clear\<close>: the buffer is emptied, five new accessors are created, the
  counters are set to zero, and \<^verbatim>\<open>flush()\<close> is called on the emptied buffer.
\<close>

definition clear ::
  "env \<Rightarrow> real \<Rightarrow> json_history \<Rightarrow> fsys \<Rightarrow> (json_history \<times> fsys) \<times> unit outcome" where
  "clear e now h fs =
     (let h1 = h\<lparr>buffer := [],
                  tss := new_field (next_id h) ''ts'',
                  inps := new_field (next_id h + 1) ''inp'',
                  outs := new_field (next_id h + 2) ''out'',
                  rtns := new_field (next_id h + 3) ''rtn'',
                  cwds := new_field (next_id h + 4) ''cwd'',
                  u_len := 0, u_skipped := 0, next_id := next_id h + 5\<rparr>
      in case flush False e now h1 fs of
           ((h2, fs2), Returns hf) \<Rightarrow> ((h2, fs2), Returns ())
         | ((h2, fs2), Raises err) \<Rightarrow> ((h2, fs2), Raises err)
         | ((h2, fs2), Waits) \<Rightarrow> ((h2, fs2), Waits))"

section \<open>Deleting commands\<close>

definition cmd_match :: "(string \<Rightarrow> bool) \<Rightarrow> cmd \<Rightarrow> py_error + bool" where
  \<comment> \<open>\<^verbatim>\<open>pattern.match(cmd["inp"])\<close>; \<open>pat\<close> is the compiled pattern's \<^verbatim>\<open>match\<close>, which
      raises \<^verbatim>\<open>TypeError\<close> on a value that is not a string\<close>
  "cmd_match pat c =
     (case dict_item c ''inp'' of
        Inl e \<Rightarrow> Inl e
      | Inr (JStr s) \<Rightarrow> Inr (pat s)
      | Inr _ \<Rightarrow> Inl TypeError)"

definition list_del :: "'a list \<Rightarrow> nat \<Rightarrow> 'a list" where
  \<comment> \<open>\<^verbatim>\<open>del xs[i]\<close> for an index in range\<close>
  "list_del xs i = take i xs @ drop (Suc i) xs"

text \<open>
  The loop \<^verbatim>\<open>for i, cmd in enumerate(cmds): if pattern.match(cmd["inp"]): del cmds[i];
  deleted += 1\<close>. The list iterator holds the position \<open>i\<close> and advances it after
  every element, also after a deletion that moved the next element to position \<open>i\<close>.
\<close>

function delete_loop ::
  "(string \<Rightarrow> bool) \<Rightarrow> nat \<Rightarrow> cmd list \<Rightarrow> int \<Rightarrow> (cmd list \<times> int) \<times> py_error option" where
  "delete_loop pat i cmds deleted =
     (if i < length cmds then
        (case cmd_match pat (cmds ! i) of
           Inl e \<Rightarrow> ((cmds, deleted), Some e)
         | Inr True \<Rightarrow> delete_loop pat (i + 1) (list_del cmds i) (deleted + 1)
         | Inr False \<Rightarrow> delete_loop pat (i + 1) cmds deleted)
      else ((cmds, deleted), None))"
  by pat_completeness auto
termination
  by (relation "measure (\<lambda>(pat, i, cmds, deleted). length cmds - i)") (auto simp: list_del_def)

text \<open>
  The loop of \<^verbatim>\<open>delete\<close> over the history files. A file that is not valid JSON is
  skipped; a path that does not exist, a command without \<^verbatim>\<open>inp\<close> and an input that
  is not a string raise exceptions that the loop does not catch.
\<close>

fun delete_files ::
  "(string \<Rightarrow> bool) \<Rightarrow> string list \<Rightarrow> fsys \<Rightarrow> int \<Rightarrow> (fsys \<times> int) \<times> py_error option" where
  "delete_files pat [] fs deleted = ((fs, deleted), None)"
| "delete_files pat (f # rest) fs deleted =
     (case fs f of
        None \<Rightarrow> ((fs, deleted), Some OSError)
      | Some Corrupt \<Rightarrow> delete_files pat rest fs deleted
      | Some (Doc d) \<Rightarrow>
          (case delete_loop pat 0 (sf_cmds d) deleted of
             ((cmds, n), Some e) \<Rightarrow> ((fs, n), Some e)
           | ((cmds, n), None) \<Rightarrow> delete_files pat rest (fs(f \<mapsto> Doc (d\<lparr>sf_cmds := cmds\<rparr>))) n))"

text \<open>
  \<^verbatim>\<open>JsonHistory.delete\<close>, for a compiled pattern. The wait for a running collector is
  not modelled.
\<close>

definition delete ::
  "(string \<Rightarrow> bool) \<Rightarrow> env \<Rightarrow> json_history \<Rightarrow> fsys \<Rightarrow> (json_history \<times> fsys) \<times> int outcome" where
  "delete pat e h fs =
     (case delete_loop pat 0 (buffer h) 0 of
        ((buf, n), Some err) \<Rightarrow> ((h\<lparr>buffer := buf\<rparr>, fs), Raises err)
      | ((buf, n), None) \<Rightarrow>
          (case delete_files pat (xhj_get_history_files True False None e) fs n of
             ((fs1, m), Some err) \<Rightarrow> ((h\<lparr>buffer := buf\<rparr>, fs1), Raises err)
           | ((fs1, m), None) \<Rightarrow> ((h\<lparr>buffer := buf\<rparr>, fs1), Returns m)))"

section \<open>Pulling commands of other sessions\<close>

text \<open>
  The shell as \<^verbatim>\<open>pull\<close> sees it: whether \<^verbatim>\<open>XSH.shell.shell\<close> has a prompter, and the
  lines appended to the prompter's history. Printing is not modelled.
\<close>

record shell =
  has_prompter :: bool
  prompter_history :: "string list"

text \<open>
  \<^verbatim>\<open>str.rstrip()\<close> strips the trailing characters for which \<^verbatim>\<open>str.isspace\<close> holds. A
  string of the model is the UTF-8 encoding of the Python string, so such a character
  is one byte (U+0009 to U+000D, U+001C to U+0020), two bytes (U+0085, U+00A0) or
  three bytes (U+1680, U+2000 to U+200A, U+2028, U+2029, U+202F, U+205F, U+3000).
\<close>

definition space1 :: "char \<Rightarrow> bool" where
  "space1 c =
     (let n = (of_char c :: nat) in n = 32 \<or> (9 \<le> n \<and> n \<le> 13) \<or> (28 \<le> n \<and> n \<le> 31))"

definition space2 :: "char \<Rightarrow> char \<Rightarrow> bool" where
  "space2 b1 b2 =
     (let n1 = (of_char b1 :: nat); n2 = (of_char b2 :: nat)
      in n1 = 194 \<and> (n2 = 133 \<or> n2 = 160))"

definition space3 :: "char \<Rightarrow> char \<Rightarrow> char \<Rightarrow> bool" where
  "space3 b1 b2 b3 =
     (let n1 = (of_char b1 :: nat); n2 = (of_char b2 :: nat); n3 = (of_char b3 :: nat)
      in (n1 = 225 \<and> n2 = 154 \<and> n3 = 128) \<or>
         (n1 = 226 \<and> n2 = 128 \<and>
            ((128 \<le> n3 \<and> n3 \<le> 138) \<or> n3 = 168 \<or> n3 = 169 \<or> n3 = 175)) \<or>
         (n1 = 226 \<and> n2 = 129 \<and> n3 = 159) \<or>
         (n1 = 227 \<and> n2 = 128 \<and> n3 = 128))"

text \<open>The string is given last byte first.\<close>

fun strip_spaces_rev :: "string \<Rightarrow> string" where
  "strip_spaces_rev [] = []"
| "strip_spaces_rev [c] = (if space1 c then [] else [c])"
| "strip_spaces_rev [c2, c1] =
     (if space1 c2 then strip_spaces_rev [c1] else if space2 c1 c2 then [] else [c2, c1])"
| "strip_spaces_rev (c3 # c2 # c1 # cs) =
     (if space1 c3 then strip_spaces_rev (c2 # c1 # cs)
      else if space2 c2 c3 then strip_spaces_rev (c1 # cs)
      else if space3 c1 c2 c3 then strip_spaces_rev cs
      else c3 # c2 # c1 # cs)"

definition rstrip :: "string \<Rightarrow> string" where
  "rstrip s = rev (strip_spaces_rev (rev s))"

definition basename :: "string \<Rightarrow> string" where
  \<comment> \<open>\<^verbatim>\<open>os.path.split(path)[-1]\<close>\<close>
  "basename p = rev (takeWhile (\<lambda>c. c \<noteq> CHR ''/'') (rev p))"

definition path_sessionid :: "string \<Rightarrow> string" where
  \<comment> \<open>\<^verbatim>\<open>os.path.split(path)[-1][6:-5]\<close>\<close>
  "path_sessionid p = (let b = basename p in drop 6 (take (length b - 5) b))"

definition cmd_end_ts :: "cmd \<Rightarrow> py_error + real" where
  \<comment> \<open>\<^verbatim>\<open>item["ts"][1]\<close> as the number that is compared with the cursor\<close>
  "cmd_end_ts c =
     (case dict_item c ''ts'' of
        Inl e \<Rightarrow> Inl e
      | Inr (JList xs) \<Rightarrow>
          (case list_item xs 1 of
             Inl e \<Rightarrow> Inl e
           | Inr (JReal r) \<Rightarrow> Inr r
           | Inr (JInt i) \<Rightarrow> Inr (of_int i)
           | Inr (JBool b) \<Rightarrow> Inr (if b then 1 else 0)
           | Inr _ \<Rightarrow> Inl TypeError)
      | Inr (JStr s) \<Rightarrow>
          (if length s < 2 then Inl (IndexError ''string index out of range'') else Inl TypeError)
      | Inr _ \<Rightarrow> Inl TypeError)"

text \<open>
  The backward scan of one file's commands, given newest first: it collects the
  commands that ended after the cursor and stops at the first that did not.
\<close>

fun pull_scan :: "real \<Rightarrow> cmd list \<Rightarrow> py_error + (real \<times> cmd) list" where
  "pull_scan cursor [] = Inr []"
| "pull_scan cursor (c # cs) =
     (case cmd_end_ts c of
        Inl e \<Rightarrow> Inl e
      | Inr t \<Rightarrow>
          if t > cursor then
            (case pull_scan cursor cs of Inl e \<Rightarrow> Inl e | Inr r \<Rightarrow> Inr ((t, c) # r))
          else Inr [])"

text \<open>
  The loop of \<^verbatim>\<open>_xhj_pull_items\<close> over the source paths. The current session's path
  is skipped, as is a file that is not valid JSON or has no commands; a path that
  does not exist raises.
\<close>

fun pull_files ::
  "(string option \<rightharpoonup> real) \<Rightarrow> real \<Rightarrow> string \<Rightarrow> fsys \<Rightarrow> string list \<Rightarrow>
   py_error + (real \<times> cmd) list" where
  "pull_files pull_times last_full cur fs [] = Inr []"
| "pull_files pull_times last_full cur fs (p # ps) =
     (if p = cur then pull_files pull_times last_full cur fs ps
      else
        (case fs p of
           None \<Rightarrow> Inl OSError
         | Some Corrupt \<Rightarrow> pull_files pull_times last_full cur fs ps
         | Some (Doc d) \<Rightarrow>
             if length (sf_cmds d) = 0 then pull_files pull_times last_full cur fs ps
             else
               (case pull_scan
                       (case pull_times (Some (path_sessionid p)) of
                          None \<Rightarrow> last_full | Some t \<Rightarrow> t)
                       (rev (sf_cmds d)) of
                  Inl e \<Rightarrow> Inl e
                | Inr items \<Rightarrow>
                    (case pull_files pull_times last_full cur fs ps of
                       Inl e \<Rightarrow> Inl e
                     | Inr rest \<Rightarrow> Inr (items @ rest)))))"

text \<open>
  \<^verbatim>\<open>_xhj_pull_items(pull_times, src_sessionid)\<close>: the new commands, sorted by their end
  time.
\<close>

definition xhj_pull_items ::
  "(string option \<rightharpoonup> real) \<Rightarrow> string option \<Rightarrow> env \<Rightarrow> fsys \<Rightarrow> py_error + cmd list" where
  "xhj_pull_items pull_times src_sessionid e fs =
     (case pull_times None of
        None \<Rightarrow> Inl (KeyError ''None'')
      | Some last_full \<Rightarrow>
          let src_paths =
                (case src_sessionid of
                   None \<Rightarrow> xhj_get_history_files True False (Some last_full) e
                 | Some s \<Rightarrow>
                     if s \<noteq> [] then [session_filename (data_dir e) s]
                     else xhj_get_history_files True False (Some last_full) e);
              current_session_path =
                (case history_file e of None \<Rightarrow> cwd e | Some f \<Rightarrow> if f \<noteq> [] then f else cwd e)
          in (case pull_files pull_times last_full current_session_path fs src_paths of
                Inl err \<Rightarrow> Inl err
              | Inr items \<Rightarrow> Inr (map snd (sort_key fst items))))"

text \<open>
  The loop of \<^verbatim>\<open>pull\<close> over the items: a line equal to the line before it is not
  appended. \<open>prev\<close> starts as \<^verbatim>\<open>None\<close>.
\<close>

fun pull_loop ::
  "cmd list \<Rightarrow> string option \<Rightarrow> string list \<Rightarrow> int \<Rightarrow> (string list \<times> int) \<times> py_error option" where
  "pull_loop [] prev ph cnt = ((ph, cnt), None)"
| "pull_loop (item # items) prev ph cnt =
     (case dict_item item ''inp'' of
        Inl e \<Rightarrow> ((ph, cnt), Some e)
      | Inr (JStr s) \<Rightarrow>
          (let line = rstrip s in
           if Some line \<noteq> prev then pull_loop items (Some line) (ph @ [line]) (cnt + 1)
           else pull_loop items (Some line) ph cnt)
      | Inr _ \<Rightarrow> ((ph, cnt), Some AttributeError))"

text \<open>
  \<^verbatim>\<open>JsonHistory.pull(show_commands, src_sessionid)\<close>; \<open>now\<close> is the \<^verbatim>\<open>time.time()\<close> of
  its last statement. A shell without a prompter makes it return 0 at once.
\<close>

definition pull ::
  "string option \<Rightarrow> env \<Rightarrow> real \<Rightarrow> json_history \<Rightarrow> shell \<Rightarrow> fsys \<Rightarrow>
   (json_history \<times> shell) \<times> int outcome" where
  "pull src_sessionid e now h sh fs =
     (if \<not> has_prompter sh then ((h, sh), Returns 0)
      else
        (case xhj_pull_items (last_pull_times h) src_sessionid e fs of
           Inl err \<Rightarrow> ((h, sh), Raises err)
         | Inr items \<Rightarrow>
             (case pull_loop items None (prompter_history sh) 0 of
                ((ph, cnt), Some err) \<Rightarrow> ((h, sh\<lparr>prompter_history := ph\<rparr>), Raises err)
              | ((ph, cnt), None) \<Rightarrow>
                  ((h\<lparr>last_pull_times :=
                        (if src_sessionid = None then Map.empty else last_pull_times h)
                          (src_sessionid \<mapsto> now)\<rparr>,
                    sh\<lparr>prompter_history := ph\<rparr>),
                   Returns cnt))))"

text \<open>
  The file of the session holds exactly the commands flushed so far: the commands
  counted by \<^verbatim>\<open>len(hist)\<close> that are not in the buffer.
\<close>

definition in_sync :: "json_history \<Rightarrow> fsys \<Rightarrow> bool" where
  "in_sync h fs =
     (case fs (filename h) of
        Some (Doc d) \<Rightarrow>
          int (length (sf_cmds d)) = u_len h - u_skipped h - int (length (buffer h))
      | _ \<Rightarrow> False)"

section \<open>A session used in the examples\<close>

text \<open>
  An environment without \<^verbatim>\<open>$HISTCONTROL\<close> options, in which output is not stored
  (the default) and the data directory holds the file of session \<open>s\<close>.
\<close>

definition env0 :: env where
  "env0 = \<lparr>histcontrol = [], store_stdout = False, is_ignored = (\<lambda>c. False), data_dir = ''/d'',
           dir_listing = [(''/d/xonsh-s.json'', 1)], history_file = None, cwd = ''/home''\<rparr>"

text \<open>The history of session \<open>s\<close> as \<^verbatim>\<open>JsonHistory(sessionid="s")\<close> creates it.\<close>

definition hist0 :: json_history where
  "hist0 = fst (json_history_init None ''/d'' ''s'' 100 True True (Some (1, None)) (Some True) [] 1
                  Map.empty)"

definition doc0 :: "cmd list \<Rightarrow> session_file" where
  "doc0 cs = \<lparr>sf_cmds = cs, sf_ts = Some (1, None), sf_locked = Some True,
              sf_meta = [(''sessionid'', JStr ''s'')]\<rparr>"

definition mk_cmd :: "string \<Rightarrow> string \<Rightarrow> cmd" where
  "mk_cmd i out =
     [(''inp'', JStr i), (''rtn'', JInt 0), (''ts'', JList [JReal 1, JReal 2]), (''out'', JStr out)]"

text \<open>
  A second session \<open>t\<close> with three commands, the last one ending at time 7, and the
  data directory that lists both files.
\<close>

definition mk_cmd_at :: "string \<Rightarrow> real \<Rightarrow> real \<Rightarrow> cmd" where
  "mk_cmd_at i t0 t1 = [(''inp'', JStr i), (''rtn'', JInt 0), (''ts'', JList [JReal t0, JReal t1])]"

definition env_two :: env where
  "env_two = env0\<lparr>dir_listing := [(''/d/xonsh-s.json'', 1), (''/d/xonsh-t.json'', 6)]\<rparr>"

definition fs_two :: fsys where
  "fs_two = [''/d/xonsh-s.json'' \<mapsto> Doc (doc0 []),
             ''/d/xonsh-t.json'' \<mapsto>
               Doc (doc0 [mk_cmd_at ''make'' 2 3, mk_cmd_at ''make test'' 4 5,
                          mk_cmd_at ''git push  '' 6 7])]"

definition hist_two :: json_history where
  \<comment> \<open>the history of session \<open>s\<close> after a pull of session \<open>t\<close> at time 3\<close>
  "hist_two = hist0\<lparr>last_pull_times := [None \<mapsto> 1, Some ''t'' \<mapsto> 3]\<rparr>"

section \<open>Properties of the retention policies\<close>

lemma slice_upto_prefix: "prefix (slice_upto xs k) xs"
  by (simp add: slice_upto_def take_is_prefix)

lemma slice_upto_zero: "slice_upto xs 0 = []"
  by (simp add: slice_upto_def)

lemma gc_keep_loop_bounds:
  "n \<le> gc_keep_loop metric hsize acc n fs \<and>
   gc_keep_loop metric hsize acc n fs \<le> n + int (length fs)"
proof (induction fs arbitrary: acc n)
  case Nil
  show ?case by simp
next
  case (Cons f fs)
  from Cons.IH [where acc = "acc + metric f" and n = "n + 1"] show ?case by auto
qed

lemma gc_age_loop_bounds:
  "n \<le> gc_age_loop now hsize n fs \<and> gc_age_loop now hsize n fs \<le> n + int (length fs)"
proof (induction fs arbitrary: n)
  case Nil
  show ?case by simp
next
  case (Cons f fs)
  from Cons.IH [where n = "n + 1"] show ?case by auto
qed

lemma gc_keep_loop_stops_at_once:
  "fs \<noteq> [] \<Longrightarrow> acc + metric (hd fs) > hsize \<Longrightarrow> gc_keep_loop metric hsize acc n fs = n"
  by (cases fs) simp_all

text \<open>
  When the seconds policy counts \<open>n > 0\<close> files, \<^verbatim>\<open>rmfiles[0]\<close> exists: the index
  read in the model is in range exactly when the source reads it.
\<close>

lemma gc_age_rmfiles_nonempty:
  "0 < gc_age_loop now hsize 0 files \<Longrightarrow> slice_upto files (gc_age_loop now hsize 0 files) \<noteq> []"
  using gc_age_loop_bounds [of 0 now hsize files]
  by (cases files) (auto simp: slice_upto_def)

text \<open>
  Claim C6. For the command-count and the byte-size policy: when the list of files is
  not empty and the metric of its newest (last) file alone exceeds the limit, the policy
  returns no file to remove and an amount over the limit of zero.
\<close>

theorem gc_newest_over_limit_removes_nothing:
  fixes files :: "'t hfile list"
  assumes "files \<noteq> []"
    and "hf_cmds (last files) > hsize_c"
    and "hf_size (last files) > hsize_b"
  shows "xhj_gc_commands_to_rmfiles hsize_c files = (0, []) \<and>
         xhj_gc_bytes_to_rmfiles hsize_b files = (0, [])"
proof -
  have hd_rev: "hd (rev files) = last files" and ne: "rev files \<noteq> []"
    using assms(1) by (simp_all add: hd_rev)
  have "gc_keep_loop hf_cmds hsize_c 0 0 (rev files) = 0"
    using gc_keep_loop_stops_at_once [OF ne, of hsize_c 0 hf_cmds 0] assms(2) hd_rev by simp
  then have c: "xhj_gc_commands_to_rmfiles hsize_c files = (0, [])"
    by (simp add: xhj_gc_commands_to_rmfiles_def slice_upto_zero)
  have "gc_keep_loop hf_size hsize_b 0 0 (rev files) = 0"
    using gc_keep_loop_stops_at_once [OF ne, of hsize_b 0 hf_size 0] assms(3) hd_rev by simp
  then have b: "xhj_gc_bytes_to_rmfiles hsize_b files = (0, [])"
    by (simp add: xhj_gc_bytes_to_rmfiles_def slice_upto_zero)
  from c b show ?thesis by simp
qed

theorem gc_newest_over_limit_removes_nothing_witness:
  "xhj_gc_commands_to_rmfiles 8 [(1::int, 5, ''a'', 50), (2, 3, ''b'', 30), (3, 10, ''c'', 100)] = (0, []) \<and>
   xhj_gc_bytes_to_rmfiles 80 [(1::int, 5, ''a'', 50), (2, 3, ''b'', 30), (3, 10, ''c'', 100)] = (0, [])"
  using gc_newest_over_limit_removes_nothing
    [of "[(1::int, 5, ''a'', 50), (2, 3, ''b'', 30), (3, 10, ''c'', 100)]" 8 80]
  by (simp add: hf_cmds_def hf_size_def)

text \<open>
  Claim C8. For each of the four policies the files to remove are a prefix of the list
  of files (oldest first), so the files kept are the suffix of the newest files. This
  holds for every list, sorted or not, and for every limit.
\<close>

theorem gc_rmfiles_is_prefix:
  fixes files :: "'t::{minus,ord,zero} hfile list"
  shows "prefix (snd (xhj_gc_commands_to_rmfiles hsize files)) files \<and>
         prefix (snd (xhj_gc_files_to_rmfiles hsize files)) files \<and>
         prefix (snd (xhj_gc_seconds_to_rmfiles now tsize files)) files \<and>
         prefix (snd (xhj_gc_bytes_to_rmfiles hsize files)) files"
  by (simp add: xhj_gc_commands_to_rmfiles_def xhj_gc_files_to_rmfiles_def
      xhj_gc_seconds_to_rmfiles_def xhj_gc_bytes_to_rmfiles_def Let_def slice_upto_prefix)

text \<open>
  The file-count policy for a positive limit: the oldest \<open>N - min L N\<close> files are
  removed and their number is reported.
\<close>

lemma gc_files_positive_limit:
  "0 < hsize \<Longrightarrow>
   xhj_gc_files_to_rmfiles hsize files =
     (int (length files) - min hsize (int (length files)),
      take (length files - nat (min hsize (int (length files)))) files)"
  by (auto simp: xhj_gc_files_to_rmfiles_def slice_upto_def Let_def min_def nat_diff_distrib')

text \<open>
  Claim C7. With a limit of zero the file-count policy should keep \<open>min 0 N = 0\<close>
  files and mark all \<open>N\<close> for removal. The slice \<^verbatim>\<open>files[:-0]\<close> is empty, so the
  code marks no file and reports an amount of zero.
\<close>

theorem gc_files_limit_zero_removes_nothing:
  "xhj_gc_files_to_rmfiles 0 [(1::int, 5, ''a'', 50), (2, 3, ''b'', 30)] = (0, [])"
  by (simp add: xhj_gc_files_to_rmfiles_def slice_upto_def)


section \<open>Properties of the field accessor\<close>

lemma history_len_ok: "u_skipped h \<le> u_len h \<Longrightarrow> history_len h = Inr (u_len h - u_skipped h)"
  by (simp add: history_len_def)

lemma getitem_negative_length:
  "remember_history h \<Longrightarrow> u_len h < u_skipped h \<Longrightarrow> getitem self k h fs = (h, Raises ValueError)"
  by (simp add: getitem_def history_len_def)

text \<open>
  Claim C10. With history recording disabled, \<^verbatim>\<open>__getitem__\<close> returns the empty
  string for every key: the history (its queue included) is unchanged and the result
  is the same for every file system, so no file is read and nothing is raised.
\<close>

theorem getitem_disabled_returns_empty:
  "\<not> remember_history h \<Longrightarrow> getitem self k h fs = (h, Returns (JStr ''''))"
  by (simp add: getitem_def)

theorem getitem_disabled_returns_empty_witness:
  "(let h = (fst (json_history_init None ''/d'' ''s'' 100 True False None None [] 1 Map.empty))
            \<lparr>u_len := 3, u_skipped := 5\<rparr>
    in \<not> remember_history h \<and>
       getitem (inps h) (KInt (- 7)) h Map.empty = (h, Returns (JStr '''')) \<and>
       getitem (inps h) (KInt 1000) h Map.empty = (h, Returns (JStr '''')) \<and>
       getitem (inps h) (KSlice (Some 2) None (Some 0)) h Map.empty = (h, Returns (JStr '''')) \<and>
       getitem (inps h) (KOther (JStr ''x'')) h Map.empty = (h, Returns (JStr '''')))"
proof -
  define h where "h = (fst (json_history_init None ''/d'' ''s'' 100 True False None None [] 1 Map.empty))
            \<lparr>u_len := 3, u_skipped := 5\<rparr>"
  have off: "\<not> remember_history h"
    by (simp add: h_def json_history_init_def Let_def)
  show ?thesis
    unfolding Let_def h_def [symmetric]
    using off getitem_disabled_returns_empty [OF off] by simp
qed

text \<open>
  Claim C3, as the code has it. With history recording enabled: a key that is neither
  an integer nor a slice raises \<^verbatim>\<open>IndexError\<close> with the message that the accessor may
  only be indexed by int or slice (Python's \<^verbatim>\<open>IndexError\<close>, not its
  \<^verbatim>\<open>TypeError\<close>), unless \<^verbatim>\<open>_skipped\<close> exceeds \<^verbatim>\<open>_len\<close>: then \<^verbatim>\<open>len(self)\<close>
  raises \<^verbatim>\<open>ValueError\<close> before the key is looked at. An integer key on a history of
  length zero raises \<^verbatim>\<open>IndexError\<close> with the message that the accessor is empty. In
  each case the outcome is an exception, not a value, and the history is unchanged.
\<close>

theorem getitem_bad_key_raises:
  assumes "remember_history h"
  shows "getitem self (KOther v) h fs =
           (h, Raises (if u_len h < u_skipped h then ValueError
                       else IndexError ''JsonCommandField may only be indexed by int or slice.'')) \<and>
         (u_len h = u_skipped h \<longrightarrow>
            getitem self (KInt i) h fs = (h, Raises (IndexError ''JsonCommandField is empty.'')))"
  using assms by (simp add: getitem_def history_len_def getitem_at_def)

theorem getitem_bad_key_raises_witness:
  "(let h = fst (json_history_init None ''/d'' ''s'' 100 True True None None [] 1 Map.empty)
    in remember_history h \<and> u_len h = u_skipped h \<and>
       getitem (inps h) (KOther (JStr ''x'')) h Map.empty =
         (h, Raises (IndexError ''JsonCommandField may only be indexed by int or slice.'')) \<and>
       getitem (inps h) (KInt 0) h Map.empty =
         (h, Raises (IndexError ''JsonCommandField is empty.'')) \<and>
       remember_history (h\<lparr>u_skipped := 1\<rparr>) \<and>
       getitem (inps h) (KOther (JStr ''x'')) (h\<lparr>u_skipped := 1\<rparr>) Map.empty =
         (h\<lparr>u_skipped := 1\<rparr>, Raises ValueError))"
proof -
  define h where "h = fst (json_history_init None ''/d'' ''s'' 100 True True None None [] 1 Map.empty)"
  have a: "remember_history h" and c: "u_len h = u_skipped h" and z: "u_len h = 0"
    by (simp_all add: h_def json_history_init_def Let_def)
  have a': "remember_history (h\<lparr>u_skipped := 1\<rparr>)"
    using a by simp
  show ?thesis
    unfolding Let_def h_def [symmetric]
    using a c z getitem_bad_key_raises [OF a, of "inps h" "JStr ''x''" Map.empty 0]
      getitem_bad_key_raises [OF a', of "inps h" "JStr ''x''" Map.empty 0]
    by simp
qed

text \<open>
  Claim C3 as stated, with a type error for a key that is neither an integer nor a
  slice, fails: on a new history with recording enabled the string key \<open>x\<close> raises
  \<^verbatim>\<open>IndexError\<close>, which is not \<^verbatim>\<open>TypeError\<close>; and with one more command skipped than
  counted the same key raises \<^verbatim>\<open>ValueError\<close>.
\<close>

theorem getitem_bad_key_not_type_error:
  "getitem (inps (fst (json_history_init None ''/d'' ''s'' 100 True True None None [] 1 Map.empty)))
     (KOther (JStr ''x''))
     (fst (json_history_init None ''/d'' ''s'' 100 True True None None [] 1 Map.empty)) Map.empty =
     (fst (json_history_init None ''/d'' ''s'' 100 True True None None [] 1 Map.empty),
      Raises (IndexError ''JsonCommandField may only be indexed by int or slice.'')) \<and>
   IndexError ''JsonCommandField may only be indexed by int or slice.'' \<noteq> TypeError \<and>
   getitem (inps (fst (json_history_init None ''/d'' ''s'' 100 True True None None [] 1 Map.empty)))
     (KOther (JStr ''x''))
     ((fst (json_history_init None ''/d'' ''s'' 100 True True None None [] 1 Map.empty))
        \<lparr>u_skipped := 1\<rparr>) Map.empty =
     ((fst (json_history_init None ''/d'' ''s'' 100 True True None None [] 1 Map.empty))
        \<lparr>u_skipped := 1\<rparr>,
      Raises ValueError) \<and>
   ValueError \<noteq> TypeError"
  by (simp add: getitem_def history_len_def json_history_init_def Let_def)


section \<open>Properties of clear and delete\<close>

lemma hist0_eq:
  "hist0 = \<lparr>remember_history = True, filename = ''/d/xonsh-s.json'', buffer = [], buffersize = 100,
            u_queue = [], u_len = 0, u_skipped = 0, last_pull_times = [None \<mapsto> 1],
            tss = new_field 0 ''ts'', inps = new_field 1 ''inp'', outs = new_field 2 ''out'',
            rtns = new_field 3 ''rtn'', cwds = new_field 4 ''cwd'', save_cwd = True, next_id = 5\<rparr>"
  by (simp add: hist0_def json_history_init_def session_filename_def path_join_def Let_def)

lemma init_creates_file:
  "snd (json_history_init None ''/d'' ''s'' 100 True True (Some (1, None)) (Some True) [] 1 Map.empty)
     ''/d/xonsh-s.json'' = Some (Doc (doc0 []))"
  by (simp add: json_history_init_def session_filename_def path_join_def doc0_def dict_set_def Let_def)

text \<open>
  \<^verbatim>\<open>clear\<close> empties the buffer before it calls \<^verbatim>\<open>flush\<close>, and \<^verbatim>\<open>flush\<close> returns
  at once on an empty buffer: no flusher is created and no file is written, whatever
  the state.
\<close>

lemma clear_never_writes:
  "snd (fst (clear e now h fs)) = fs \<and> u_queue (fst (fst (clear e now h fs))) = u_queue h"
  by (simp add: clear_def flush_def)

text \<open>
  Claim C2. A session whose file holds two flushed commands is cleared. The buffer and
  the counters are reset and the accessors are new, but the file is not rewritten: its
  \<^verbatim>\<open>cmds\<close> array still holds both commands.
\<close>

theorem clear_leaves_file_commands:
  "clear env0 3 (hist0\<lparr>u_len := 2\<rparr>)
     [''/d/xonsh-s.json'' \<mapsto> Doc (doc0 [mk_cmd ''ls'' ''a'', mk_cmd ''pwd'' ''/''])] =
   ((hist0\<lparr>tss := new_field 5 ''ts'', inps := new_field 6 ''inp'', outs := new_field 7 ''out'',
            rtns := new_field 8 ''rtn'', cwds := new_field 9 ''cwd'', next_id := 10\<rparr>,
     [''/d/xonsh-s.json'' \<mapsto> Doc (doc0 [mk_cmd ''ls'' ''a'', mk_cmd ''pwd'' ''/''])]),
    Returns ())"
  by (simp add: clear_def flush_def hist0_eq)

lemma delete_loop_adjacent:
  "delete_loop (prefix ''rm'') 0 [mk_cmd ''rm a'' '''', mk_cmd ''rm b'' ''''] n =
     (([mk_cmd ''rm b'' ''''], n + 1), None)"
  by (simp add: cmd_match_def dict_item_def list_del_def mk_cmd_def)

text \<open>
  Claim C4. The pattern \<^verbatim>\<open>rm\<close> matches all four commands of the session, two in
  the buffer and two in the file. \<^verbatim>\<open>delete\<close> removes the first of each adjacent
  pair only and returns 2: deleting the element at the iterator's position moves the
  next element into that position, and the iterator then steps over it.
\<close>

theorem delete_skips_adjacent_match:
  "delete (prefix ''rm'') env0
     (hist0\<lparr>buffer := [mk_cmd ''rm a'' '''', mk_cmd ''rm b'' ''''], u_len := 4\<rparr>)
     [''/d/xonsh-s.json'' \<mapsto> Doc (doc0 [mk_cmd ''rm a'' '''', mk_cmd ''rm b'' ''''])] =
   ((hist0\<lparr>buffer := [mk_cmd ''rm b'' ''''], u_len := 4\<rparr>,
     [''/d/xonsh-s.json'' \<mapsto> Doc (doc0 [mk_cmd ''rm b'' ''''])]),
    Returns 2)"
  by (simp add: delete_def delete_loop_adjacent xhj_get_history_files_def env0_def hist0_eq doc0_def
      del: delete_loop.simps)


section \<open>Reading a field before and after a flush\<close>

text \<open>An index in the last \<^verbatim>\<open>len(buffer)\<close> positions is served from the buffer.\<close>

lemma getitem_from_buffer:
  assumes "remember_history h" and "u_skipped h \<le> u_len h"
    and "u_len h - u_skipped h - int (length (buffer h)) \<le> i"
    and "0 \<le> i" and "i < u_len h - u_skipped h"
  shows "getitem self (KInt i) h fs =
           (h, Returns (dict_get (buffer h ! nat (i + int (length (buffer h)) - (u_len h - u_skipped h)))
                          (cf_field self) (cf_default self)))"
  using assms by (simp add: getitem_def history_len_def getitem_at_def list_item_def Let_def)

text \<open>
  An index below them is read from the file; on an idle queue the accessor is at the
  front at once and leaves the queue as it found it.
\<close>

lemma getitem_from_file:
  assumes "remember_history h" and "u_queue h = []"
    and "fs (filename h) = Some (Doc d)"
    and "0 \<le> i" and "i < u_len h - u_skipped h - int (length (buffer h))"
    and "i < int (length (sf_cmds d))"
  shows "getitem self (KInt i) h fs =
           (h, Returns (dict_get (sf_cmds d ! nat i) (cf_field self) (cf_default self)))"
  using assms
  by (simp add: getitem_def history_len_def getitem_at_def list_item_def Let_def
      queue_append_def queue_popleft_def i_am_at_the_front_def lj_cmds_item_def)

text \<open>
  A flush on an idle queue whose filter keeps every buffered command, followed by the
  run of its thread: the commands are appended to the file, without \<^verbatim>\<open>out\<close> unless
  output is stored.
\<close>

lemma flush_and_run_idle:
  assumes "buffer h \<noteq> []" and "u_queue h = []"
    and "fs (filename h) = Some (Doc d)"
    and "dump_filter (''ignoredups'' \<in> set (histcontrol e)) (''ignoreerr'' \<in> set (histcontrol e))
           JNull (buffer h) = (0, Inr (buffer h))"
  shows "flush_and_run e now h fs =
           ((h\<lparr>next_id := next_id h + 1, buffer := []\<rparr>,
             fs(filename h \<mapsto> Doc (d\<lparr>sf_cmds := sf_cmds d @
                (if store_stdout e then buffer h else map (\<lambda>c. dict_pop c ''out'') (buffer h))\<rparr>))),
            Returns ())"
  using assms
  by (simp add: flush_and_run_def flush_def flusher_run_def dump_def Let_def
      queue_append_def queue_popleft_def i_am_at_the_front_def)

lemma dict_get_pop: "k \<noteq> k' \<Longrightarrow> dict_get (dict_pop c k') k dflt = dict_get c k dflt"
  by (induction c) (auto simp: dict_get_def dict_pop_def)


text \<open>
  The state in which the reads are compared is the state that the operations keep: a
  new history is in sync with the file it creates, and \<^verbatim>\<open>append\<close> and a completed
  flush on an idle queue keep it so.
\<close>

lemma dump_filter_count:
  "dump_filter dups errs last_inp cs = (n, Inr kept) \<Longrightarrow>
   int (length kept) + n = int (length cs)"
proof (induction cs arbitrary: last_inp n kept)
  case Nil
  then show ?case by simp
next
  case (Cons c cs)
  then show ?case
    by (auto split: sum.splits bool.splits prod.splits if_splits)
qed

lemma in_sync_init:
  assumes "fs (session_filename dir sid) = None"
  shows "in_sync (fst (json_history_init None dir sid bufsize savecwd remember ts locked meta now fs))
           (snd (json_history_init None dir sid bufsize savecwd remember ts locked meta now fs))"
  using assms
  by (simp add: in_sync_def json_history_init_def Let_def session_filename_def path_join_def)

lemma in_sync_append:
  assumes "in_sync h fs" and "append_cmd c e now h fs = ((h', fs'), Returns None)"
  shows "in_sync h' fs'"
  using assms
  by (auto simp: in_sync_def append_cmd_def flush_def Let_def
      split: if_splits option.splits fcontent.splits)

lemma in_sync_flush_and_run:
  assumes "in_sync h fs" and "u_queue h = []"
    and "flush_and_run e now h fs = ((h', fs'), Returns ())"
  shows "in_sync h' fs' \<and> u_queue h' = [] \<and> buffer h' = []"
proof (cases "length (buffer h) = 0")
  case True
  then show ?thesis
    using assms by (auto simp: flush_and_run_def flush_def)
next
  case False
  then show ?thesis
    using assms
    by (auto simp: in_sync_def flush_and_run_def flush_def flusher_run_def dump_def Let_def
        queue_append_def queue_popleft_def i_am_at_the_front_def
        split: prod.splits sum.splits option.splits fcontent.splits
        dest!: dump_filter_count)
qed

lemma dict_get_popped: "dict_get (dict_pop c k) k dflt = dflt"
proof -
  have "map_of (filter (\<lambda>kv. fst kv \<noteq> k) c) k = None"
    by (induction c) auto
  then show ?thesis
    by (simp add: dict_get_def dict_pop_def)
qed

text \<open>
  Claim C5, as the code has it. The queue is idle and the file holds exactly the
  commands flushed so far. Index \<open>i\<close> is in the buffer and the flush drops no buffered
  command. Then the read of index \<open>i\<close> returns a value before the flush, from the
  buffer; the flush runs to its end; and the read after it, from the file, returns the
  same value, for every field but \<^verbatim>\<open>out\<close> and for \<^verbatim>\<open>out\<close> when output is stored. For
  \<^verbatim>\<open>out\<close> when output is not stored, the read after the flush returns the accessor's
  default.
\<close>

theorem getitem_same_across_flush:
  assumes on: "remember_history h" and idle: "u_queue h = []"
    and doc: "fs (filename h) = Some (Doc d)"
    and sync: "int (length (sf_cmds d)) = u_len h - u_skipped h - int (length (buffer h))"
    and lo: "u_len h - u_skipped h - int (length (buffer h)) \<le> i"
    and hi: "i < u_len h - u_skipped h"
    and keep: "dump_filter (''ignoredups'' \<in> set (histcontrol e)) (''ignoreerr'' \<in> set (histcontrol e))
                 JNull (buffer h) = (0, Inr (buffer h))"
  shows "\<exists>v h' fs'.
           getitem self (KInt i) h fs = (h, Returns v) \<and>
           flush_and_run e now h fs = ((h', fs'), Returns ()) \<and>
           buffer h' = [] \<and>
           getitem self (KInt i) h' fs' =
             (h', Returns (if cf_field self = ''out'' \<and> \<not> store_stdout e then cf_default self
                           else v))"
proof -
  define sz where "sz = u_len h - u_skipped h"
  define bufsize where "bufsize = int (length (buffer h))"
  define j where "j = nat (i + bufsize - sz)"
  define new where "new = (if store_stdout e then buffer h else map (\<lambda>c. dict_pop c ''out'') (buffer h))"
  define d' where "d' = d\<lparr>sf_cmds := sf_cmds d @ new\<rparr>"
  define h' where "h' = h\<lparr>next_id := next_id h + 1, buffer := []\<rparr>"
  define fs' where "fs' = fs(filename h \<mapsto> Doc d')"
  define v where "v = dict_get (buffer h ! j) (cf_field self) (cf_default self)"
  define w where "w = (if cf_field self = ''out'' \<and> \<not> store_stdout e then cf_default self else v)"
  have nonneg: "0 \<le> i" and len: "u_skipped h \<le> u_len h"
    using sync lo hi by linarith+
  have jlt: "j < length (buffer h)" and ne: "buffer h \<noteq> []"
    using lo hi by (auto simp: j_def sz_def bufsize_def)
  have before: "getitem self (KInt i) h fs = (h, Returns v)"
    using getitem_from_buffer [where h = h, OF on len lo nonneg hi]
    by (simp add: v_def j_def sz_def bufsize_def)
  have run: "flush_and_run e now h fs = ((h', fs'), Returns ())"
    using flush_and_run_idle [where h = h and fs = fs and d = d and e = e, OF ne idle doc keep]
    by (simp add: h'_def fs'_def d'_def new_def)
  have inew: "nat i = length (sf_cmds d) + j"
    using sync lo hi by (simp add: j_def sz_def bufsize_def)
  have lnew: "length new = length (buffer h)"
    by (simp add: new_def)
  have "dict_get (new ! j) (cf_field self) (cf_default self) = w"
    using jlt by (auto simp: new_def v_def w_def dict_get_pop dict_get_popped)
  then have val: "dict_get (sf_cmds d' ! nat i) (cf_field self) (cf_default self) = w"
    by (simp add: d'_def inew nth_append)
  have "getitem self (KInt i) h' fs' =
          (h', Returns (dict_get (sf_cmds d' ! nat i) (cf_field self) (cf_default self)))"
  proof (rule getitem_from_file)
    show "remember_history h'" using on by (simp add: h'_def)
    show "u_queue h' = []" using idle by (simp add: h'_def)
    show "fs' (filename h') = Some (Doc d')" by (simp add: fs'_def h'_def)
    show "0 \<le> i" by (rule nonneg)
    show "i < u_len h' - u_skipped h' - int (length (buffer h'))"
      using hi by (simp add: h'_def)
    show "i < int (length (sf_cmds d'))"
      using hi sync lnew by (simp add: d'_def)
  qed
  with val have after: "getitem self (KInt i) h' fs' = (h', Returns w)"
    by simp
  have "buffer h' = []" by (simp add: h'_def)
  with before run after show ?thesis
    unfolding w_def by blast
qed

theorem getitem_same_across_flush_witness:
  "(let h = hist0\<lparr>buffer := [mk_cmd ''ls'' ''a.txt''], u_len := 3\<rparr>;
        d = doc0 [dict_pop (mk_cmd ''cd /'' '''') ''out'', dict_pop (mk_cmd ''pwd'' ''/'') ''out''];
        fs = [''/d/xonsh-s.json'' \<mapsto> Doc d]
    in remember_history h \<and> u_queue h = [] \<and> fs (filename h) = Some (Doc d) \<and>
       int (length (sf_cmds d)) = u_len h - u_skipped h - int (length (buffer h)) \<and>
       u_len h - u_skipped h - int (length (buffer h)) \<le> 2 \<and> 2 < u_len h - u_skipped h \<and>
       dump_filter (''ignoredups'' \<in> set (histcontrol env0)) (''ignoreerr'' \<in> set (histcontrol env0))
         JNull (buffer h) = (0, Inr (buffer h)) \<and>
       cf_field (inps h) \<noteq> ''out'' \<and>
       (\<exists>v h' fs'.
           getitem (inps h) (KInt 2) h fs = (h, Returns v) \<and>
           flush_and_run env0 4 h fs = ((h', fs'), Returns ()) \<and>
           buffer h' = [] \<and>
           getitem (inps h) (KInt 2) h' fs' = (h', Returns v)))"
proof -
  define h where "h = hist0\<lparr>buffer := [mk_cmd ''ls'' ''a.txt''], u_len := 3\<rparr>"
  define d where "d = doc0 [dict_pop (mk_cmd ''cd /'' '''') ''out'', dict_pop (mk_cmd ''pwd'' ''/'') ''out'']"
  define fs where "fs = [''/d/xonsh-s.json'' \<mapsto> Doc d]"
  have on: "remember_history h" and idle: "u_queue h = []"
    and doc: "fs (filename h) = Some (Doc d)"
    and sync: "int (length (sf_cmds d)) = u_len h - u_skipped h - int (length (buffer h))"
    and lo: "u_len h - u_skipped h - int (length (buffer h)) \<le> 2"
    and hi: "2 < u_len h - u_skipped h"
    by (simp_all add: h_def d_def fs_def hist0_eq doc0_def)
  have keep: "dump_filter (''ignoredups'' \<in> set (histcontrol env0))
                (''ignoreerr'' \<in> set (histcontrol env0)) JNull (buffer h) = (0, Inr (buffer h))"
    by (simp add: h_def env0_def dup_test_def err_test_def dict_item_def mk_cmd_def)
  have fld: "cf_field (inps h) \<noteq> ''out''"
    by (simp add: h_def hist0_eq new_field_def)
  show ?thesis
    unfolding Let_def h_def [symmetric] d_def [symmetric] fs_def [symmetric]
    using on idle doc sync lo hi keep fld
      getitem_same_across_flush [where h = h and fs = fs and d = d and e = env0 and i = 2
        and self = "inps h" and now = 4, OF on idle doc sync lo hi keep]
    by simp
qed


text \<open>
  Claim C5 as stated, for every field, fails for \<^verbatim>\<open>out\<close>.
  The field \<^verbatim>\<open>out\<close> with output not stored (the default): before the flush the read
  of index 0 returns the captured output from the buffer; the flush strips \<^verbatim>\<open>out\<close>
  from the command it writes; after the flush the read returns the default,
  \<^verbatim>\<open>None\<close>.
\<close>

theorem getitem_out_differs_after_flush:
  "getitem (outs (hist0\<lparr>buffer := [mk_cmd ''ls'' ''a.txt''], u_len := 1\<rparr>)) (KInt 0)
     (hist0\<lparr>buffer := [mk_cmd ''ls'' ''a.txt''], u_len := 1\<rparr>)
     [''/d/xonsh-s.json'' \<mapsto> Doc (doc0 [])] =
     (hist0\<lparr>buffer := [mk_cmd ''ls'' ''a.txt''], u_len := 1\<rparr>, Returns (JStr ''a.txt'')) \<and>
   flush_and_run env0 2 (hist0\<lparr>buffer := [mk_cmd ''ls'' ''a.txt''], u_len := 1\<rparr>)
     [''/d/xonsh-s.json'' \<mapsto> Doc (doc0 [])] =
     ((hist0\<lparr>u_len := 1, next_id := 6\<rparr>,
       [''/d/xonsh-s.json'' \<mapsto> Doc (doc0 [dict_pop (mk_cmd ''ls'' ''a.txt'') ''out''])]), Returns ()) \<and>
   getitem (outs (hist0\<lparr>u_len := 1, next_id := 6\<rparr>)) (KInt 0) (hist0\<lparr>u_len := 1, next_id := 6\<rparr>)
     [''/d/xonsh-s.json'' \<mapsto> Doc (doc0 [dict_pop (mk_cmd ''ls'' ''a.txt'') ''out''])] =
     (hist0\<lparr>u_len := 1, next_id := 6\<rparr>, Returns JNull)"
  apply (intro conjI)
    apply (simp add: getitem_def history_len_def getitem_at_def list_item_def Let_def hist0_eq mk_cmd_def dict_get_def new_field_def)
   apply (simp add: flush_and_run_def flush_def flusher_run_def dump_def Let_def
      queue_append_def queue_popleft_def i_am_at_the_front_def hist0_eq env0_def doc0_def mk_cmd_def dict_item_def dup_test_def err_test_def)
  apply (simp add: getitem_def history_len_def getitem_at_def list_item_def Let_def
      queue_append_def queue_popleft_def i_am_at_the_front_def lj_cmds_item_def hist0_eq doc0_def mk_cmd_def dict_get_def dict_pop_def new_field_def)
  done



text \<open>
  With \<^verbatim>\<open>ignoredups\<close>, a flush that drops a duplicate shortens the history: index 1
  is served before the flush and out of range after it.
\<close>

lemma getitem_after_dedup:
  "getitem (inps hist0) (KInt 1) (hist0\<lparr>buffer := [mk_cmd ''ls'' '''', mk_cmd ''ls'' ''''], u_len := 2\<rparr>)
     [''/d/xonsh-s.json'' \<mapsto> Doc (doc0 [])] =
     (hist0\<lparr>buffer := [mk_cmd ''ls'' '''', mk_cmd ''ls'' ''''], u_len := 2\<rparr>, Returns (JStr ''ls'')) \<and>
   flush_and_run (env0\<lparr>histcontrol := [''ignoredups'']\<rparr>) 3
     (hist0\<lparr>buffer := [mk_cmd ''ls'' '''', mk_cmd ''ls'' ''''], u_len := 2\<rparr>)
     [''/d/xonsh-s.json'' \<mapsto> Doc (doc0 [])] =
     ((hist0\<lparr>u_len := 2, u_skipped := 1, next_id := 6\<rparr>,
       [''/d/xonsh-s.json'' \<mapsto> Doc (doc0 [dict_pop (mk_cmd ''ls'' '''') ''out''])]), Returns ()) \<and>
   getitem (inps hist0) (KInt 1) (hist0\<lparr>u_len := 2, u_skipped := 1, next_id := 6\<rparr>)
     [''/d/xonsh-s.json'' \<mapsto> Doc (doc0 [dict_pop (mk_cmd ''ls'' '''') ''out''])] =
     (hist0\<lparr>u_len := 2, u_skipped := 1, next_id := 6\<rparr>, Raises (IndexError ''list index out of range''))"
  apply (intro conjI)
    apply (simp add: getitem_def history_len_def getitem_at_def list_item_def Let_def hist0_eq
      mk_cmd_def dict_get_def new_field_def)
   apply (simp add: flush_and_run_def flush_def flusher_run_def dump_def Let_def queue_append_def
      queue_popleft_def i_am_at_the_front_def hist0_eq env0_def doc0_def mk_cmd_def dict_item_def
      dup_test_def err_test_def)
  apply (simp add: getitem_def history_len_def getitem_at_def list_item_def Let_def hist0_eq
      new_field_def)
  done

text \<open>
  A history with more commands skipped than counted arises when \<^verbatim>\<open>clear\<close> runs
  between a flush and the run of its thread: with \<^verbatim>\<open>ignoredups\<close>, the thread skips the
  duplicate after \<^verbatim>\<open>clear\<close> has set both counters to zero. A key that is neither an
  integer nor a slice then raises \<^verbatim>\<open>ValueError\<close>.
\<close>

lemma negative_length_after_clear:
  "(case flush False (env0\<lparr>histcontrol := [''ignoredups'']\<rparr>) 3
           (hist0\<lparr>buffer := [mk_cmd ''ls'' '''', mk_cmd ''ls'' ''''], u_len := 2\<rparr>)
           [''/d/xonsh-s.json'' \<mapsto> Doc (doc0 [])] of
      ((ha, fsa), Returns (Some fl)) \<Rightarrow>
        (case clear (env0\<lparr>histcontrol := [''ignoredups'']\<rparr>) 4 ha fsa of
           ((hb, fsb), rb) \<Rightarrow>
             (case flusher_run fl (env0\<lparr>histcontrol := [''ignoredups'']\<rparr>) 5 hb fsb of
                ((hc, fsc), rc) \<Rightarrow>
                  rb = Returns () \<and> rc = Returns () \<and> u_len hc = 0 \<and> u_skipped hc = 1 \<and>
                  getitem (inps hc) (KOther (JStr ''x'')) hc fsc = (hc, Raises ValueError)))
    | _ \<Rightarrow> False)"
  by (simp add: flush_def clear_def flusher_run_def dump_def Let_def queue_append_def
      queue_popleft_def i_am_at_the_front_def hist0_eq env0_def doc0_def mk_cmd_def dict_item_def
      dup_test_def err_test_def getitem_def history_len_def)

section \<open>The queue of the access serializer\<close>








text \<open>
  The queue has to be idle for this. A flusher created at exit does not wait: it
  dumps and removes the head of the queue, whichever ticket that is. Behind the ticket
  of object 1 it returns with its own ticket (object 5) left in the queue, and when
  its dump raises it is left behind that ticket.
\<close>

lemma flush_at_exit_behind_ticket:
  "flush True env0 3 (hist0\<lparr>u_len := 2, u_queue := [1], buffer := [mk_cmd ''ls'' ''a.txt'']\<rparr>)
     [''/d/xonsh-s.json'' \<mapsto> Doc (doc0 [mk_cmd ''pwd'' ''/''])] =
     ((hist0\<lparr>u_len := 2, u_queue := [5], next_id := 6\<rparr>,
       [''/d/xonsh-s.json'' \<mapsto>
          Doc ((doc0 [mk_cmd ''pwd'' ''/'', dict_pop (mk_cmd ''ls'' ''a.txt'') ''out''])
                 \<lparr>sf_ts := Some (1, Some 3), sf_locked := Some False\<rparr>)]),
      Returns (Some \<lparr>fl_id = 5, fl_filename = ''/d/xonsh-s.json'',
                      fl_buffer = [mk_cmd ''ls'' ''a.txt''], fl_at_exit = True\<rparr>)) \<and>
   flush True env0 3 (hist0\<lparr>u_len := 2, u_queue := [1], buffer := [mk_cmd ''ls'' ''a.txt'']\<rparr>)
     Map.empty =
     ((hist0\<lparr>u_len := 2, u_queue := [1, 5], buffer := [mk_cmd ''ls'' ''a.txt''], next_id := 6\<rparr>,
       Map.empty),
      Raises OSError)"
  by (simp add: flush_def dump_def Let_def queue_append_def queue_popleft_def hist0_eq env0_def
      doc0_def mk_cmd_def dict_item_def dup_test_def err_test_def dict_pop_def)

text \<open>A later operation of another object finds the ticket at the head and waits.\<close>

lemma getitem_waits_behind:
  assumes "remember_history h" and "u_queue h = x # q" and "x \<noteq> cf_id self"
    and "0 \<le> i" and "i < u_len h - u_skipped h - int (length (buffer h))"
  shows "getitem self (KInt i) h fs = (h\<lparr>u_queue := x # q @ [cf_id self]\<rparr>, Waits)"
  using assms
  by (simp add: getitem_def history_len_def getitem_at_def Let_def queue_append_def
      i_am_at_the_front_def)

lemma flusher_waits_behind:
  assumes "u_queue h = x # q" and "x \<noteq> fl_id self"
  shows "flusher_run self e now h fs = ((h, fs), Waits)"
  using assms by (simp add: flusher_run_def i_am_at_the_front_def)


section \<open>The cursors of pull\<close>

lemma rstrip_examples:
  "rstrip ''ls -l  '' = ''ls -l'' \<and>
   rstrip [CHR ''a'', CHR 0xC2, CHR 0xA0, CHR '' ''] = ''a'' \<and>
   rstrip [CHR 0xC3, CHR 0xA9, CHR '' '', CHR 0xE2, CHR 0x80, CHR 0xA8, CHR 0x09] =
     [CHR 0xC3, CHR 0xA9] \<and>
   rstrip [CHR 0xE2, CHR 0x80, CHR 0x8B] = [CHR 0xE2, CHR 0x80, CHR 0x8B]"
  by (simp add: rstrip_def space1_def space2_def space3_def)

lemma pull_unsupported_shell:
  "\<not> has_prompter sh \<Longrightarrow> pull src e now h sh fs = ((h, sh), Returns 0)"
  by (simp add: pull_def)

lemma pull_returns_cursors:
  assumes "pull src e now h sh fs = ((h', sh'), Returns n)" and "has_prompter sh"
  shows "last_pull_times h' = (if src = None then Map.empty else last_pull_times h)(src \<mapsto> now)"
  using assms
  by (auto simp: pull_def split: sum.splits prod.splits option.splits)

text \<open>
  Claim C9, as the code has it. When \<^verbatim>\<open>pull\<close> returns in a shell with a prompter: with
  no source the map of cursors is exactly the sentinel key with the new time; with a
  source, that source's cursor is the new time and every other entry, the sentinel's
  among them, is as before. In a shell without a prompter \<^verbatim>\<open>pull\<close> returns 0 and the
  map is as before.
\<close>

theorem pull_cursor_update:
  assumes "pull src e now h sh fs = ((h', sh'), Returns n)"
  shows "(has_prompter sh \<and> src = None \<longrightarrow> last_pull_times h' = [None \<mapsto> now]) \<and>
         (has_prompter sh \<and> src \<noteq> None \<longrightarrow>
            last_pull_times h' src = Some now \<and>
            (\<forall>k. k \<noteq> src \<longrightarrow> last_pull_times h' k = last_pull_times h k)) \<and>
         (\<not> has_prompter sh \<longrightarrow> last_pull_times h' = last_pull_times h \<and> n = 0)"
proof (cases "has_prompter sh")
  case True
  from pull_returns_cursors [OF assms True] True show ?thesis
    by simp
next
  case False
  from pull_unsupported_shell [OF False, of src e now h fs] assms False show ?thesis
    by simp
qed

lemma path_sessionid_t: "path_sessionid ''/d/xonsh-t.json'' = ''t''"
  by (simp add: path_sessionid_def basename_def)

lemma pull_items_two:
  "xhj_pull_items [None \<mapsto> 1, Some ''t'' \<mapsto> 3] None env_two fs_two =
     Inr [mk_cmd_at ''make test'' 4 5, mk_cmd_at ''git push  '' 6 7] \<and>
   xhj_pull_items [None \<mapsto> 1, Some ''t'' \<mapsto> 3] (Some ''t'') env_two fs_two =
     Inr [mk_cmd_at ''make test'' 4 5, mk_cmd_at ''git push  '' 6 7]"
  by (simp add: xhj_pull_items_def xhj_get_history_files_def env_two_def env0_def fs_two_def
      path_sessionid_t doc0_def mk_cmd_at_def cmd_end_ts_def dict_item_def list_item_def
      session_filename_def path_join_def)

lemma pull_loop_two:
  "pull_loop [mk_cmd_at ''make test'' 4 5, mk_cmd_at ''git push  '' 6 7] None [] 0 =
     (([''make test'', ''git push''], 2), None)"
  by (simp add: mk_cmd_at_def dict_item_def rstrip_def space1_def space2_def space3_def)

lemma pull_two:
  "pull None env_two 9 hist_two \<lparr>has_prompter = True, prompter_history = []\<rparr> fs_two =
     ((hist_two\<lparr>last_pull_times := [None \<mapsto> 9]\<rparr>,
       \<lparr>has_prompter = True, prompter_history = [''make test'', ''git push'']\<rparr>), Returns 2) \<and>
   pull (Some ''t'') env_two 9 hist_two \<lparr>has_prompter = True, prompter_history = []\<rparr> fs_two =
     ((hist_two\<lparr>last_pull_times := [None \<mapsto> 1, Some ''t'' \<mapsto> 9]\<rparr>,
       \<lparr>has_prompter = True, prompter_history = [''make test'', ''git push'']\<rparr>), Returns 2)"
  by (simp add: pull_def hist_two_def pull_items_two pull_loop_two del: pull_loop.simps)

theorem pull_cursor_update_witness:
  "pull None env_two 9 hist_two \<lparr>has_prompter = True, prompter_history = []\<rparr> fs_two =
     ((hist_two\<lparr>last_pull_times := [None \<mapsto> 9]\<rparr>,
       \<lparr>has_prompter = True, prompter_history = [''make test'', ''git push'']\<rparr>), Returns 2) \<and>
   last_pull_times (hist_two\<lparr>last_pull_times := [None \<mapsto> 9]\<rparr>) = [None \<mapsto> 9] \<and>
   pull (Some ''t'') env_two 9 hist_two \<lparr>has_prompter = True, prompter_history = []\<rparr> fs_two =
     ((hist_two\<lparr>last_pull_times := [None \<mapsto> 1, Some ''t'' \<mapsto> 9]\<rparr>,
       \<lparr>has_prompter = True, prompter_history = [''make test'', ''git push'']\<rparr>), Returns 2) \<and>
   last_pull_times (hist_two\<lparr>last_pull_times := [None \<mapsto> 1, Some ''t'' \<mapsto> 9]\<rparr>) (Some ''t'') = Some 9 \<and>
   last_pull_times (hist_two\<lparr>last_pull_times := [None \<mapsto> 1, Some ''t'' \<mapsto> 9]\<rparr>) None =
     last_pull_times hist_two None \<and>
   pull None env_two 9 hist_two \<lparr>has_prompter = False, prompter_history = []\<rparr> fs_two =
     ((hist_two, \<lparr>has_prompter = False, prompter_history = []\<rparr>), Returns 0)"
proof -
  have a: "pull None env_two 9 hist_two \<lparr>has_prompter = True, prompter_history = []\<rparr> fs_two =
     ((hist_two\<lparr>last_pull_times := [None \<mapsto> 9]\<rparr>,
       \<lparr>has_prompter = True, prompter_history = [''make test'', ''git push'']\<rparr>), Returns 2)"
    and b: "pull (Some ''t'') env_two 9 hist_two \<lparr>has_prompter = True, prompter_history = []\<rparr> fs_two =
     ((hist_two\<lparr>last_pull_times := [None \<mapsto> 1, Some ''t'' \<mapsto> 9]\<rparr>,
       \<lparr>has_prompter = True, prompter_history = [''make test'', ''git push'']\<rparr>), Returns 2)"
    using pull_two by simp_all
  have c: "pull None env_two 9 hist_two \<lparr>has_prompter = False, prompter_history = []\<rparr> fs_two =
     ((hist_two, \<lparr>has_prompter = False, prompter_history = []\<rparr>), Returns 0)"
    by (simp add: pull_def)
  have d: "last_pull_times hist_two None = Some 1"
    by (simp add: hist_two_def)
  from pull_cursor_update [OF a] pull_cursor_update [OF b] pull_cursor_update [OF c] a b c d
  show ?thesis
    by simp
qed

text \<open>
  Claim C9 as stated, for every call of \<^verbatim>\<open>pull()\<close>, fails in a shell without a
  prompter.
  In a shell without a prompter, \<^verbatim>\<open>pull()\<close> at time 9 returns 0 and leaves the map of
  cursors as the constructor set it at time 1: the sentinel key does not get the new
  time.
\<close>

theorem pull_unsupported_keeps_cursors:
  "pull None env_two 9 hist0 \<lparr>has_prompter = False, prompter_history = []\<rparr> fs_two =
     ((hist0, \<lparr>has_prompter = False, prompter_history = []\<rparr>), Returns 0) \<and>
   last_pull_times hist0 None = Some 1 \<and>
   last_pull_times hist0 \<noteq> [None \<mapsto> 9]"
proof -
  have "last_pull_times hist0 None = Some 1"
    by (simp add: hist0_eq)
  moreover from this have "last_pull_times hist0 \<noteq> [None \<mapsto> 9]"
    by (auto dest: fun_cong [where x = None])
  ultimately show ?thesis
    by (simp add: pull_def)
qed

end
